theory Spec2Isabelle
  imports Main "HOL-Library.Word"
begin

unbundle bit_operations_syntax

section \<open>Values, errors and console output\<close>

text \<open>
  Python integers are unbounded: addresses, sizes and payloads are \<open>int\<close>.
  Bytes are 8-bit words. An attribute that holds \<open>None\<close>, an integer or a
  \<open>bytearray\<close> at different times (\<open>Hook.data\<close>) is a \<open>pyval\<close>.
\<close>

type_synonym byte = "8 word"

datatype pyval = PNone | PInt int | PBytes "byte list"

text \<open>Python truthiness, as used by \<open>if self.data and ...\<close>.\<close>

fun truthy :: "pyval \<Rightarrow> bool" where
  "truthy PNone = False"
| "truthy (PInt n) = (n \<noteq> 0)"
| "truthy (PBytes bs) = (bs \<noteq> [])"

datatype error =
    RuntimeError string
  | KeyError string
  | TypeError
  | UnicodeEncodeError
  | UnmappedAddressError int
  | SectionCountFullError
  | StructError

text \<open>The lines \<open>print\<close> writes, one constructor per format string.\<close>

datatype message =
    BaseAutoSet int
  | AlignmentWarning
  | UnknownModifier string
  | ExceedsWarning string int
  | CouldNotOpen string

section \<open>The base image (interface of the external DOL container)\<close>

text \<open>
  The container library is outside the repository; the image is modelled by the
  interface \<open>build_dol\<close> and the hooks use: the two section lists, a byte store
  addressed absolutely, and the cursor moved by \<open>seek\<close>. \<open>seek\<close> to an address
  outside every section raises, as the container does for an unmapped address, and
  so does a write that runs past the end of the section that holds the cursor.
\<close>

record dol_section =
  address :: int
  size_s :: int

record dol_file =
  textSections :: "dol_section list"
  dataSections :: "dol_section list"
  mem :: "int \<Rightarrow> byte"
  pos :: int

definition sections :: "dol_file \<Rightarrow> dol_section list" where
  "sections dol = textSections dol @ dataSections dol"

definition is_mapped :: "dol_file \<Rightarrow> int \<Rightarrow> bool" where
  "is_mapped dol a = list_ex (\<lambda>s. address s \<le> a \<and> a < address s + size_s s) (sections dol)"

definition seek :: "dol_file \<Rightarrow> int \<Rightarrow> error + dol_file" where
  "seek dol a = (if is_mapped dol a then Inr (dol\<lparr>pos := a\<rparr>) else Inl (UnmappedAddressError a))"

fun write_bytes :: "(int \<Rightarrow> byte) \<Rightarrow> int \<Rightarrow> byte list \<Rightarrow> (int \<Rightarrow> byte)" where
  "write_bytes m a [] = m"
| "write_bytes m a (b # bs) = write_bytes (m(a := b)) (a + 1) bs"

definition read_bytes :: "(int \<Rightarrow> byte) \<Rightarrow> int \<Rightarrow> nat \<Rightarrow> byte list" where
  "read_bytes m a n = map (\<lambda>i. m (a + int i)) [0..<n]"

text \<open>
  \<open>dol.write(bs)\<close>: stores at the cursor and advances it. The bytes must fit in
  the section that holds the cursor, the first one in the order of \<open>sections\<close>.
\<close>

definition dol_write :: "dol_file \<Rightarrow> byte list \<Rightarrow> error + dol_file" where
  "dol_write dol bs =
     (case find (\<lambda>s. address s \<le> pos dol \<and> pos dol < address s + size_s s) (sections dol) of
        None \<Rightarrow> Inl (UnmappedAddressError (pos dol))
      | Some s \<Rightarrow>
          if pos dol + int (length bs) \<le> address s + size_s s
          then Inr (dol\<lparr>mem := write_bytes (mem dol) (pos dol) bs,
                       pos := pos dol + int (length bs)\<rparr>)
          else Inl (UnmappedAddressError (pos dol + int (length bs))))"

text \<open>Big-endian packing; a value outside the field's unsigned range does not pack.\<close>

definition be16 :: "int \<Rightarrow> byte list" where
  "be16 v = [word_of_int (drop_bit 8 v), word_of_int v]"

definition be32 :: "int \<Rightarrow> byte list" where
  "be32 v = [word_of_int (drop_bit 24 v), word_of_int (drop_bit 16 v),
             word_of_int (drop_bit 8 v), word_of_int v]"

definition write_uint16 :: "dol_file \<Rightarrow> int \<Rightarrow> int \<Rightarrow> error + dol_file" where
  "write_uint16 dol a v =
     (if 0 \<le> v \<and> v < 2 ^ 16
      then (case seek dol a of Inl e \<Rightarrow> Inl e | Inr d \<Rightarrow> dol_write d (be16 v))
      else Inl StructError)"

definition write_uint32 :: "dol_file \<Rightarrow> int \<Rightarrow> int \<Rightarrow> error + dol_file" where
  "write_uint32 dol a v =
     (if 0 \<le> v \<and> v < 2 ^ 32
      then (case seek dol a of Inl e \<Rightarrow> Inl e | Inr d \<Rightarrow> dol_write d (be32 v))
      else Inl StructError)"

datatype section_kind = TextSection | DataSection


section \<open>Helpers of \<open>dol_c_kit.doltools\<close>\<close>

text \<open>Modelled from the spec: \<open>doltools.mask_field\<close> is imported by
  \<open>devkit_tools.py\<close> but its module is not among the sources. The spec speaks of a
  value "masked to 16 bits" or "masked to 12 bits", "independent of the address's
  sign": the low \<open>bits\<close> bits of the two's-complement value. The \<open>signed\<close> flag
  does not change the masked result.\<close>

definition mask_field :: "int \<Rightarrow> nat \<Rightarrow> bool \<Rightarrow> int" where
  "mask_field val bits sgnd = val AND (2 ^ bits - 1)"

text \<open>Modelled from the spec: \<open>doltools.hi\<close> is missing from the sources. "High
  half: bits 16-31 of the address, plus 1 if bit 15 is set [...] only when the
  signed/adjusted form is requested".\<close>

definition hi :: "int \<Rightarrow> bool \<Rightarrow> int" where
  "hi val sgnd =
     (drop_bit 16 val + (if sgnd \<and> bit val 15 then 1 else 0)) AND 0xFFFF"

text \<open>Modelled from the spec: \<open>doltools.lo\<close> is missing from the sources. "Low
  half: bits 0-15, treated as a signed 16-bit quantity for masking purposes".\<close>

definition lo :: "int \<Rightarrow> bool \<Rightarrow> int" where
  "lo val sgnd = val AND 0xFFFF"

text \<open>Modelled from the spec: \<open>doltools.hia\<close> is missing from the sources.
  "High-half-with-rounding: as high half but independent of the sign-compensation
  flag".\<close>

definition hia :: "int \<Rightarrow> bool \<Rightarrow> int" where
  "hia val sgnd = (drop_bit 16 val + (if bit val 15 then 1 else 0)) AND 0xFFFF"

text \<open>Modelled from the spec: \<open>doltools.assemble_branch\<close> is missing from the
  sources. The spec describes a "displacement-encoded branch/branch-and-link
  instruction" of 4 bytes whose "displacement fields are numerically valid": the
  target platform's I-form branch, opcode 18, with the 26-bit signed displacement
  \<open>target - addr\<close> and the link bit; a displacement that does not fit is refused.\<close>

definition assemble_branch :: "int \<Rightarrow> int \<Rightarrow> bool \<Rightarrow> error + byte list" where
  "assemble_branch addr target LK =
     (let disp = target - addr in
      if - (2 ^ 25) \<le> disp \<and> disp < 2 ^ 25
      then Inr (be32 (0x48000000 OR (disp AND 0x03FFFFFC) OR (if LK then 1 else 0)))
      else Inl (RuntimeError ''branch displacement out of range''))"

text \<open>Modelled from the spec: \<open>doltools.write_branch\<close> is missing from the
  sources. It "overwrite[s] the 4 bytes at the [...] origin address in the base image
  with a branch instruction targeting the placement address (unconditional, no
  link)": the branch is assembled for the cursor's address and written there.\<close>

definition write_branch :: "dol_file \<Rightarrow> int \<Rightarrow> error + dol_file" where
  "write_branch dol target =
     (case assemble_branch (pos dol) target False of
        Inl e \<Rightarrow> Inl e
      | Inr bs \<Rightarrow> dol_write dol bs)"

section \<open>The injectable code table and its relocation\<close>

text \<open>
  \<open>GeckoCommand.Type\<close> belongs to the external code-table library; the eight members
  named in \<open>SupportedGeckoCodetypes\<close> are kept and every other member is \<open>OTHER\<close>
  with its tag.
\<close>

datatype codetype_t =
    WRITE_8 | WRITE_16 | WRITE_32 | WRITE_STR | WRITE_SERIAL | WRITE_BRANCH
  | ASM_INSERT | ASM_INSERT_XOR | OTHER nat

record gecko_command =
  codetype :: codetype_t
  address_c :: int
  value_c :: "byte list"

record gecko_code =
  enabled :: bool
  name_g :: string
  commands :: "gecko_command list"

definition SupportedGeckoCodetypes :: "codetype_t list" where
  "SupportedGeckoCodetypes =
     [WRITE_8, WRITE_16, WRITE_32, WRITE_STR, WRITE_SERIAL, WRITE_BRANCH,
      ASM_INSERT, ASM_INSERT_XOR]"

text \<open>Lines 430-434 of \<open>build_dol\<close>: the status string of one code entry.\<close>

definition code_status :: "gecko_code \<Rightarrow> string" where
  "code_status gc =
     (if enabled gc
      then (if list_ex (\<lambda>c. codetype c \<notin> set SupportedGeckoCodetypes) (commands gc)
            then ''OMITTED'' else ''ENABLED'')
      else ''DISABLED'')"

text \<open>A tuple of \<open>gecko_command_metadata\<close>: placement address, size, status, command.\<close>

type_synonym command_metadata = "int \<times> int \<times> string \<times> gecko_command"

text \<open>A tuple of \<open>gecko_code_metadata\<close>.\<close>

type_synonym code_metadata = "int \<times> int \<times> string \<times> gecko_code \<times> command_metadata list"

text \<open>
  One iteration of the inner loop (lines 447-458). The state is the image, the
  entry's \<open>geckoblob\<close> and its \<open>gecko_command_metadata\<close>.
\<close>

definition relocate_command ::
  "int \<Rightarrow> string \<Rightarrow> dol_file \<times> byte list \<times> command_metadata list \<Rightarrow> gecko_command
     \<Rightarrow> error + (dol_file \<times> byte list \<times> command_metadata list)" where
  "relocate_command vaddress status st cmd =
     (case st of (dol, geckoblob, md) \<Rightarrow>
      if codetype cmd = ASM_INSERT \<or> codetype cmd = ASM_INSERT_XOR then
        if status = ''UNUSED'' \<or> status = ''OMITTED'' then
          Inr (dol, geckoblob, md @ [(0, int (length (value_c cmd)), status, cmd)])
        else
          (case seek dol (address_c cmd OR 0x80000000) of
             Inl e \<Rightarrow> Inl e
           | Inr d1 \<Rightarrow>
          (case write_branch d1 (vaddress + int (length geckoblob)) of
             Inl e \<Rightarrow> Inl e
           | Inr d2 \<Rightarrow>
          (let md' = md @ [(vaddress + int (length geckoblob), int (length (value_c cmd)), status, cmd)];
               gb1 = geckoblob @ take (length (value_c cmd) - 4) (value_c cmd)
           in case assemble_branch (vaddress + int (length gb1))
                     ((address_c cmd + 4) OR 0x80000000) False of
                Inl e \<Rightarrow> Inl e
              | Inr br \<Rightarrow> Inr (d2, gb1 @ br, md'))))
      else Inr (dol, geckoblob, md))"

fun relocate_commands ::
  "int \<Rightarrow> string \<Rightarrow> dol_file \<times> byte list \<times> command_metadata list \<Rightarrow> gecko_command list
     \<Rightarrow> error + (dol_file \<times> byte list \<times> command_metadata list)" where
  "relocate_commands vaddress status st [] = Inr st"
| "relocate_commands vaddress status st (cmd # cmds) =
     (case relocate_command vaddress status st cmd of
        Inl e \<Rightarrow> Inl e
      | Inr st' \<Rightarrow> relocate_commands vaddress status st' cmds)"

text \<open>
  One iteration of the outer loop (lines 429-461). The state is the image, the
  \<open>datablob\<close> and the project's \<open>gecko_code_metadata\<close>. The status lines the
  loop prints take no part in what it computes and are left out.
\<close>

definition relocate_code ::
  "int \<Rightarrow> dol_file \<times> byte list \<times> code_metadata list \<Rightarrow> gecko_code
     \<Rightarrow> error + (dol_file \<times> byte list \<times> code_metadata list)" where
  "relocate_code base_addr st gc =
     (case st of (dol, datablob, metadata) \<Rightarrow>
      let status = code_status gc;
          vaddress = base_addr + int (length datablob)
      in case relocate_commands vaddress status (dol, [], []) (commands gc) of
           Inl e \<Rightarrow> Inl e
         | Inr (dol', geckoblob, gecko_command_metadata) \<Rightarrow>
             Inr (dol', datablob @ geckoblob,
                  if gecko_command_metadata \<noteq> []
                  then metadata @ [(vaddress, int (length geckoblob), status, gc, gecko_command_metadata)]
                  else metadata))"

fun relocate_codetable ::
  "int \<Rightarrow> dol_file \<times> byte list \<times> code_metadata list \<Rightarrow> gecko_code list
     \<Rightarrow> error + (dol_file \<times> byte list \<times> code_metadata list)" where
  "relocate_codetable base_addr st [] = Inr st"
| "relocate_codetable base_addr st (gc # gcs) =
     (case relocate_code base_addr st gc of
        Inl e \<Rightarrow> Inl e
      | Inr st' \<Rightarrow> relocate_codetable base_addr st' gcs)"

section \<open>Symbols and hooks\<close>

text \<open>
  \<open>Project.symbols\<close>: a dictionary from names to symbol entries. Only \<open>st_value\<close>
  and \<open>st_size\<close> are read; \<open>st_value\<close> is \<open>None\<close> for a small-data-area base that
  \<open>set_sda_bases\<close> never set.
\<close>

record symbol_entry =
  st_value :: "int option"
  st_size :: int

type_synonym symtab = "string \<rightharpoonup> symbol_entry"

text \<open>
  What the hooks read from outside the project: the files a \<open>FileHook\<close> opens
  (absent means \<open>open\<close> raises \<open>OSError\<close>) and Python's \<open>str.encode\<close>, by
  encoding name.
\<close>

record env =
  fs :: "string \<rightharpoonup> byte list"
  str_encode :: "string \<Rightarrow> string \<Rightarrow> error + byte list"

text \<open>The \<open>ascii\<close> codec: one byte per character below 128, an error otherwise.\<close>

definition ascii_encode :: "string \<Rightarrow> error + byte list" where
  "ascii_encode s =
     (if list_all (\<lambda>c. of_char c < (128::nat)) s
      then Inr (map (\<lambda>c. of_nat (of_char c)) s)
      else Inl UnicodeEncodeError)"

text \<open>The six subclasses of \<open>Hook\<close>, with the arguments of their constructors.\<close>

datatype hook_kind =
    BranchHook string bool
  | PointerHook string
  | StringHook string string "int option"
  | FileHook string int "int option" "int option"
  | Immediate16Hook string string
  | Immediate12Hook int int string string

record hook =
  good :: bool
  addr :: int
  data :: pyval
  kind :: hook_kind

text \<open>The \<open>hook_*\<close> methods of \<open>Project\<close> build a hook as its constructor leaves it.\<close>

definition hook_branch :: "int \<Rightarrow> string \<Rightarrow> bool \<Rightarrow> hook" where
  "hook_branch a sym_name LK = \<lparr>good = False, addr = a, data = PNone, kind = BranchHook sym_name LK\<rparr>"

definition hook_pointer :: "int \<Rightarrow> string \<Rightarrow> hook" where
  "hook_pointer a sym_name = \<lparr>good = False, addr = a, data = PNone, kind = PointerHook sym_name\<rparr>"

definition hook_string :: "int \<Rightarrow> string \<Rightarrow> string \<Rightarrow> int option \<Rightarrow> hook" where
  "hook_string a s encoding max_strlen =
     \<lparr>good = False, addr = a, data = PBytes [], kind = StringHook s encoding max_strlen\<rparr>"

definition hook_file :: "int \<Rightarrow> string \<Rightarrow> int \<Rightarrow> int option \<Rightarrow> int option \<Rightarrow> hook" where
  "hook_file a filepath start end_f max_size =
     \<lparr>good = False, addr = a, data = PBytes [], kind = FileHook filepath start end_f max_size\<rparr>"

definition hook_immediate16 :: "int \<Rightarrow> string \<Rightarrow> string \<Rightarrow> hook" where
  "hook_immediate16 a sym_name modifier =
     \<lparr>good = False, addr = a, data = PNone, kind = Immediate16Hook sym_name modifier\<rparr>"

definition hook_immediate12 :: "int \<Rightarrow> int \<Rightarrow> int \<Rightarrow> string \<Rightarrow> string \<Rightarrow> hook" where
  "hook_immediate12 a w i sym_name modifier =
     \<lparr>good = False, addr = a, data = PNone, kind = Immediate12Hook w i sym_name modifier\<rparr>"

subsection \<open>\<open>resolve\<close>\<close>

text \<open>Python's \<open>xs[start:end]\<close>: a negative bound counts from the end, both are clamped.\<close>

definition py_bound :: "int \<Rightarrow> nat \<Rightarrow> nat" where
  "py_bound i n = (if i < 0 then nat (max 0 (int n + i)) else min (nat i) n)"

definition py_slice :: "int \<Rightarrow> int option \<Rightarrow> 'a list \<Rightarrow> 'a list" where
  "py_slice start end_f xs =
     (let n = length xs;
          e = (case end_f of None \<Rightarrow> n | Some j \<Rightarrow> py_bound j n)
      in drop (py_bound start n) (take e xs))"

text \<open>
  The size limit shared by \<open>StringHook\<close> and \<open>FileHook\<close>: a payload over the limit
  is kept whole with a warning, a shorter one is padded with zero bytes.
\<close>

definition pad_to_limit :: "string \<Rightarrow> int option \<Rightarrow> byte list \<Rightarrow> message list \<times> byte list" where
  "pad_to_limit label limit bs =
     (case limit of
        None \<Rightarrow> ([], bs)
      | Some m \<Rightarrow>
          if int (length bs) > m then ([ExceedsWarning label m], bs)
          else ([], bs @ replicate (nat (m - int (length bs))) 0))"

text \<open>\<open>symbols[name]['st_value']\<close> used as a number: a missing key and \<open>None\<close> both raise.\<close>

definition sym_int :: "symtab \<Rightarrow> string \<Rightarrow> error + int" where
  "sym_int symbols n =
     (case symbols n of
        None \<Rightarrow> Inl (KeyError n)
      | Some e \<Rightarrow> (case st_value e of None \<Rightarrow> Inl TypeError | Some v \<Rightarrow> Inr v))"

text \<open>The \<open>@sda\<close> and \<open>@sda2\<close> branches, which differ in the base's name and message.\<close>

definition sda_relative :: "symtab \<Rightarrow> string \<Rightarrow> string \<Rightarrow> string \<Rightarrow> error + int" where
  "sda_relative symbols sym_name base_name msg =
     (case symbols base_name of
        None \<Rightarrow> Inl (KeyError base_name)
      | Some b \<Rightarrow>
          (case st_value b of
             None \<Rightarrow> Inl (RuntimeError msg)
           | Some B \<Rightarrow>
               (case sym_int symbols sym_name of
                  Inl e \<Rightarrow> Inl e
                | Inr A \<Rightarrow> Inr (mask_field (A - B) 16 True))))"

definition sda_message :: string where
  "sda_message = ''You must set this project's sda_base member before using the @sda modifier!  Check out the set_sda_bases method.''"

definition sda2_message :: string where
  "sda2_message = ''You must set this project's sda2_base member before using the @sda2 modifier!  Check out the set_sda_bases method.''"

text \<open>
  The modifier chain that \<open>Immediate16Hook.resolve\<close> and \<open>Immediate12Hook.resolve\<close>
  both contain: the new value of \<open>self.data\<close>. An unknown modifier prints and leaves
  \<open>self.data\<close> as it was.
\<close>

definition modifier_value ::
  "symtab \<Rightarrow> string \<Rightarrow> string \<Rightarrow> pyval \<Rightarrow> message list \<times> (error + pyval)" where
  "modifier_value symbols sym_name modifier old =
     (if modifier = ''@h'' then
        ([], map_sum id (\<lambda>v. PInt (hi v True)) (sym_int symbols sym_name))
      else if modifier = ''@l'' then
        ([], map_sum id (\<lambda>v. PInt (lo v True)) (sym_int symbols sym_name))
      else if modifier = ''@ha'' then
        ([], map_sum id (\<lambda>v. PInt (hia v True)) (sym_int symbols sym_name))
      else if modifier = ''@sda'' then
        ([], map_sum id PInt (sda_relative symbols sym_name ''_SDA_BASE_'' sda_message))
      else if modifier = ''@sda2'' then
        ([], map_sum id PInt (sda_relative symbols sym_name ''_SDA2_BASE_'' sda2_message))
      else ([UnknownModifier modifier], Inr old))"

text \<open>\<open>mask_field\<close> applied to \<open>self.data\<close>: masking \<open>None\<close> or bytes is a \<open>TypeError\<close>.\<close>

definition mask_data :: "pyval \<Rightarrow> nat \<Rightarrow> error + int" where
  "mask_data d bits = (case d of PInt v \<Rightarrow> Inr (mask_field v bits True) | _ \<Rightarrow> Inl TypeError)"

definition resolve :: "env \<Rightarrow> symtab \<Rightarrow> hook \<Rightarrow> message list \<times> (error + hook)" where
  "resolve ev symbols h =
     (case kind h of
        BranchHook sym_name lk_bit \<Rightarrow>
          (case symbols sym_name of
             None \<Rightarrow> ([], Inr h)
           | Some e \<Rightarrow> ([], Inr (h\<lparr>data := (case st_value e of None \<Rightarrow> PNone | Some v \<Rightarrow> PInt v)\<rparr>)))
      | PointerHook sym_name \<Rightarrow>
          (case symbols sym_name of
             None \<Rightarrow> ([], Inr h)
           | Some e \<Rightarrow> ([], Inr (h\<lparr>data := (case st_value e of None \<Rightarrow> PNone | Some v \<Rightarrow> PInt v)\<rparr>)))
      | StringHook s encoding max_strlen \<Rightarrow>
          (case str_encode ev encoding s of
             Inl e \<Rightarrow> ([], Inl e)
           | Inr bs \<Rightarrow>
               (case pad_to_limit s max_strlen (bs @ [0]) of
                  (msgs, bs') \<Rightarrow> (msgs, Inr (h\<lparr>data := PBytes bs'\<rparr>))))
      | FileHook filepath start end_f max_size \<Rightarrow>
          (case fs ev filepath of
             None \<Rightarrow> ([CouldNotOpen filepath], Inr h)
           | Some content \<Rightarrow>
               (case pad_to_limit filepath max_size (py_slice start end_f content) of
                  (msgs, bs') \<Rightarrow> (msgs, Inr (h\<lparr>data := PBytes bs'\<rparr>))))
      | Immediate16Hook sym_name modifier \<Rightarrow>
          (if sym_name \<in> dom symbols then
             (case modifier_value symbols sym_name modifier (data h) of
                (msgs, Inl e) \<Rightarrow> (msgs, Inl e)
              | (msgs, Inr d) \<Rightarrow>
                  (case mask_data d 16 of
                     Inl e \<Rightarrow> (msgs, Inl e)
                   | Inr v \<Rightarrow> (msgs, Inr (h\<lparr>data := PInt v\<rparr>))))
           else ([], Inr h))
      | Immediate12Hook w i sym_name modifier \<Rightarrow>
          (if sym_name \<in> dom symbols then
             (case modifier_value symbols sym_name modifier (data h) of
                (msgs, Inl e) \<Rightarrow> (msgs, Inl e)
              | (msgs, Inr d) \<Rightarrow>
                  (case mask_data d 12 of
                     Inl e \<Rightarrow> (msgs, Inl e)
                   | Inr v \<Rightarrow>
                       (msgs, Inr (h\<lparr>data := PInt (v OR push_bit 12 (mask_field i 1 False)
                                                     OR push_bit 13 (mask_field w 3 False))\<rparr>))))
           else ([], Inr h)))"

subsection \<open>\<open>apply_dol\<close> and \<open>write_geckocommand\<close>\<close>

definition apply_dol :: "dol_file \<Rightarrow> hook \<Rightarrow> error + (dol_file \<times> hook)" where
  "apply_dol dol h =
     (case kind h of
        BranchHook sym_name lk_bit \<Rightarrow>
          (if truthy (data h) \<and> is_mapped dol (addr h) then
             (case seek dol (addr h) of
                Inl e \<Rightarrow> Inl e
              | Inr d \<Rightarrow>
                  (case data h of
                     PInt t \<Rightarrow>
                       (case assemble_branch (addr h) t lk_bit of
                          Inl e \<Rightarrow> Inl e
                        | Inr bs \<Rightarrow>
                            map_sum id (\<lambda>d'. (d', h\<lparr>good := True\<rparr>)) (dol_write d bs))
                   | _ \<Rightarrow> Inl TypeError))
           else Inr (dol, h))
      | PointerHook sym_name \<Rightarrow>
          (if truthy (data h) \<and> is_mapped dol (addr h) then
             (case data h of
                PInt v \<Rightarrow> map_sum id (\<lambda>d. (d, h\<lparr>good := True\<rparr>)) (write_uint32 dol (addr h) v)
              | _ \<Rightarrow> Inl TypeError)
           else Inr (dol, h))
      | StringHook s encoding max_strlen \<Rightarrow>
          (if is_mapped dol (addr h) then
             (case seek dol (addr h) of
                Inl e \<Rightarrow> Inl e
              | Inr d \<Rightarrow>
                  (case data h of
                     PBytes bs \<Rightarrow> map_sum id (\<lambda>d'. (d', h\<lparr>good := True\<rparr>)) (dol_write d bs)
                   | _ \<Rightarrow> Inl TypeError))
           else Inr (dol, h))
      | FileHook filepath start end_f max_size \<Rightarrow>
          (if is_mapped dol (addr h) then
             (case seek dol (addr h) of
                Inl e \<Rightarrow> Inl e
              | Inr d \<Rightarrow>
                  (case data h of
                     PBytes bs \<Rightarrow> map_sum id (\<lambda>d'. (d', h\<lparr>good := True\<rparr>)) (dol_write d bs)
                   | _ \<Rightarrow> Inl TypeError))
           else Inr (dol, h))
      | Immediate16Hook sym_name modifier \<Rightarrow>
          (if truthy (data h) \<and> is_mapped dol (addr h) then
             (case data h of
                PInt v \<Rightarrow> map_sum id (\<lambda>d. (d, h\<lparr>good := True\<rparr>)) (write_uint16 dol (addr h) v)
              | _ \<Rightarrow> Inl TypeError)
           else Inr (dol, h))
      | Immediate12Hook w i sym_name modifier \<Rightarrow>
          (if truthy (data h) \<and> is_mapped dol (addr h) then
             (case data h of
                PInt v \<Rightarrow> map_sum id (\<lambda>d. (d, h\<lparr>good := True\<rparr>)) (write_uint16 dol (addr h) v)
              | _ \<Rightarrow> Inl TypeError)
           else Inr (dol, h)))"

text \<open>
  The commands of the external code-table library that a hook writes to the script,
  with the arguments of their constructors; the file is the list of commands written.
\<close>

datatype gecko_line =
    WriteBranch pyval int bool
  | Write32 pyval int
  | Write16 pyval int
  | WriteString pyval int

definition write_geckocommand :: "gecko_line list \<Rightarrow> hook \<Rightarrow> gecko_line list \<times> hook" where
  "write_geckocommand f h =
     (case kind h of
        BranchHook sym_name lk_bit \<Rightarrow>
          (if truthy (data h) then (f @ [WriteBranch (data h) (addr h) lk_bit], h\<lparr>good := True\<rparr>)
           else (f, h))
      | PointerHook sym_name \<Rightarrow>
          (if truthy (data h) then (f @ [Write32 (data h) (addr h)], h\<lparr>good := True\<rparr>)
           else (f, h))
      | StringHook s encoding max_strlen \<Rightarrow>
          (f @ [WriteString (data h) (addr h)], h\<lparr>good := True\<rparr>)
      | FileHook filepath start end_f max_size \<Rightarrow>
          (f @ [WriteString (data h) (addr h)], h\<lparr>good := True\<rparr>)
      | Immediate16Hook sym_name modifier \<Rightarrow>
          (if truthy (data h) then (f @ [Write16 (data h) (addr h)], h\<lparr>good := True\<rparr>)
           else (f, h))
      | Immediate12Hook w i sym_name modifier \<Rightarrow>
          (if truthy (data h) then (f @ [Write16 (data h) (addr h)], h\<lparr>good := True\<rparr>)
           else (f, h)))"

section \<open>\<open>Project.build_dol\<close>\<close>

fun find_rom_end_loop :: "int \<Rightarrow> dol_section list \<Rightarrow> int" where
  "find_rom_end_loop rom_end [] = rom_end"
| "find_rom_end_loop rom_end (s # ss) =
     find_rom_end_loop
       (if address s + size_s s > rom_end then address s + size_s s else rom_end) ss"

definition find_rom_end :: "dol_file \<Rightarrow> int" where
  "find_rom_end dol = find_rom_end_loop 0x80000000 (sections dol)"

text \<open>
  Lines 413-419: the base address in force for the build and what is printed. The
  argument is \<open>self.base_addr\<close>, \<open>None\<close> when no base address was configured.
\<close>

definition alignment_warning :: "int \<Rightarrow> message list" where
  "alignment_warning b = (if b mod 32 \<noteq> 0 then [AlignmentWarning] else [])"

definition set_base_addr :: "int option \<Rightarrow> dol_file \<Rightarrow> int \<times> message list" where
  "set_base_addr base_addr dol =
     (case base_addr of
        None \<Rightarrow>
          (let b = (find_rom_end dol + 31) AND 0xFFFFFFE0
           in (b, BaseAutoSet b # alignment_warning b))
      | Some b \<Rightarrow> (b, alignment_warning b))"



text \<open>
  Lines 464-468: every hook is resolved, then applied to the image. The
  \<open>dump_info\<close> line printed when \<open>verbose\<close> is set is left out.
\<close>

fun apply_hooks ::
  "env \<Rightarrow> symtab \<Rightarrow> dol_file \<Rightarrow> hook list \<Rightarrow> message list \<times> (error + (dol_file \<times> hook list))" where
  "apply_hooks ev symbols dol [] = ([], Inr (dol, []))"
| "apply_hooks ev symbols dol (h # hs) =
     (case resolve ev symbols h of
        (msgs, Inl e) \<Rightarrow> (msgs, Inl e)
      | (msgs, Inr h1) \<Rightarrow>
          (case apply_dol dol h1 of
             Inl e \<Rightarrow> (msgs, Inl e)
           | Inr (dol1, h2) \<Rightarrow>
               (case apply_hooks ev symbols dol1 hs of
                  (msgs', Inl e) \<Rightarrow> (msgs @ msgs', Inl e)
                | (msgs', Inr (dol2, hs')) \<Rightarrow> (msgs @ msgs', Inr (dol2, h2 # hs')))))"

text \<open>
  Lines 471-477: the kind of the new section. \<open>MaxTextSections\<close> and
  \<open>MaxDataSections\<close> are constants of the external container class and are
  parameters here.
\<close>

definition new_section :: "nat \<Rightarrow> nat \<Rightarrow> dol_file \<Rightarrow> error + section_kind" where
  "new_section MaxTextSections MaxDataSections dol =
     (if length (textSections dol) \<le> MaxTextSections then Inr TextSection
      else if length (dataSections dol) \<le> MaxDataSections then Inr DataSection
      else Inl (RuntimeError ''DOL is full!  Cannot allocate any new sections.''))"


record project =
  base_addr :: "int option"
  symbols :: symtab
  hooks :: "hook list"
  gecko_codetable :: "gecko_code list"
  gecko_code_metadata :: "code_metadata list"
  osarena_patcher :: "(dol_file \<Rightarrow> int \<Rightarrow> error + dol_file) option"

text \<open>
  What \<open>build_dol\<close> takes from its collaborators: the container's two capacity
  constants, the code table's own \<open>apply\<close>, the outcome of the toolchain (the linked
  binary, if the project was built) and the environment of the hooks.
\<close>

record collaborators =
  MaxTextSections :: nat
  MaxDataSections :: nat
  codetable_apply :: "gecko_code list \<Rightarrow> dol_file \<Rightarrow> error + dol_file"
  built :: "byte list option"
  hook_env :: env


section \<open>Auxiliary notions and concrete inputs\<close>

text \<open>The symbol a hook refers to; string and file hooks refer to none.\<close>

fun symbol_name :: "hook_kind \<Rightarrow> string option" where
  "symbol_name (BranchHook n lk) = Some n"
| "symbol_name (PointerHook n) = Some n"
| "symbol_name (StringHook s e m) = None"
| "symbol_name (FileHook p s e m) = None"
| "symbol_name (Immediate16Hook n m) = Some n"
| "symbol_name (Immediate12Hook w i n m) = Some n"

text \<open>The image of the spec's scenario: one section at [0x80003000, 0x80004000).\<close>

definition example_dol :: dol_file where
  "example_dol = \<lparr>textSections = [\<lparr>address = 0x80003000, size_s = 0x1000\<rparr>],
                   dataSections = [], mem = (\<lambda>a. 0), pos = 0\<rparr>"

text \<open>An image whose only section lies below 0x80000000, at [0x1000, 0x2000).\<close>

definition low_dol :: dol_file where
  "low_dol = \<lparr>textSections = [\<lparr>address = 0x1000, size_s = 0x1000\<rparr>],
               dataSections = [], mem = (\<lambda>a. 0), pos = 0\<rparr>"

text \<open>An image with seven text sections and no data section.\<close>

definition seven_text_dol :: dol_file where
  "seven_text_dol =
     \<lparr>textSections = map (\<lambda>k. \<lparr>address = 0x80003000 + 0x100 * int k, size_s = 0x100\<rparr>) [0..<7],
      dataSections = [], mem = (\<lambda>a. 0), pos = 0\<rparr>"

definition example_env :: env where
  "example_env = \<lparr>fs = Map.empty, str_encode = (\<lambda>encoding s. ascii_encode s)\<rparr>"

text \<open>A symbol table with \<open>Foo\<close>, the first small-data base set and the second unset.\<close>

definition sda_symbols :: symtab where
  "sda_symbols = [''Foo'' \<mapsto> \<lparr>st_value = Some 0x80006000, st_size = 4\<rparr>,
                  ''_SDA_BASE_'' \<mapsto> \<lparr>st_value = Some 0x80005000, st_size = 0\<rparr>,
                  ''_SDA2_BASE_'' \<mapsto> \<lparr>st_value = None, st_size = 0\<rparr>]"

definition foo_symbols :: "int \<Rightarrow> symtab" where
  "foo_symbols v = [''Foo'' \<mapsto> \<lparr>st_value = Some v, st_size = 4\<rparr>]"


text \<open>
  An inline-assembly command at origin 0x80003000: one instruction and the
  4-byte placeholder; a disabled and an enabled code entry that hold it.
\<close>

definition asm_command :: gecko_command where
  "asm_command = \<lparr>codetype = ASM_INSERT, address_c = 0x3000,
                   value_c = [0x38, 0x60, 0x00, 0x01, 0x00, 0x00, 0x00, 0x00]\<rparr>"

definition disabled_code :: gecko_code where
  "disabled_code = \<lparr>enabled = False, name_g = ''Off'', commands = [asm_command]\<rparr>"




text \<open>
  What is looked at in the outcome of the relocation (the four bytes of the image
  at an address, the blob and the metadata) and of a build (the base address, the
  blob and the placement addresses of the recorded code entries).
\<close>

definition relocation_summary ::
  "int \<Rightarrow> error + (dol_file \<times> byte list \<times> code_metadata list)
     \<Rightarrow> error + (byte list \<times> byte list \<times> code_metadata list)" where
  "relocation_summary a r =
     map_sum id (\<lambda>(d, blob, md). (read_bytes (mem d) a 4, blob, md)) r"








text \<open>What is looked at in the outcome of \<open>apply_dol\<close>: bytes of the image and \<open>good\<close>.\<close>

definition apply_summary ::
  "int \<Rightarrow> nat \<Rightarrow> error + (dol_file \<times> hook) \<Rightarrow> error + (byte list \<times> bool)" where
  "apply_summary a n r = map_sum id (\<lambda>(d, h). (read_bytes (mem d) a n, good h)) r"

section \<open>Helper lemmas\<close>

lemma mask_field_take_bit: "mask_field v n s = take_bit n v"
  by (simp add: mask_field_def take_bit_eq_mask mask_eq_exp_minus_1)

lemma and_low_masks:
  "(x::int) AND 0xFFF = take_bit 12 x" "(x::int) AND 1 = take_bit 1 x" "(x::int) AND 7 = take_bit 3 x"
  by (simp_all add: take_bit_eq_mask mask_eq_exp_minus_1)

text \<open>Three fields packed side by side do not disturb each other.\<close>

lemma pack_gen_low:
  "take_bit a (take_bit a v OR push_bit a (take_bit b i) OR push_bit (a + b) (take_bit c w))
     = take_bit a (v::int)"
  by (rule bit_eqI) (auto simp: bit_simps)

lemma pack_gen_mid:
  "take_bit b (drop_bit a (take_bit a v OR push_bit a (take_bit b i) OR push_bit (a + b) (take_bit c w)))
     = take_bit b (i::int)"
  by (rule bit_eqI) (auto simp: bit_simps)

lemma pack_gen_high:
  "take_bit c (drop_bit (a + b) (take_bit a v OR push_bit a (take_bit b i) OR push_bit (a + b) (take_bit c w)))
     = take_bit c (w::int)"
  by (rule bit_eqI) (auto simp: bit_simps)

lemma pack_gen_all:
  "take_bit (a + b + c) (take_bit a v OR push_bit a (take_bit b i) OR push_bit (a + b) (take_bit c w))
     = (take_bit a v OR push_bit a (take_bit b i) OR push_bit (a + b) (take_bit c (w::int)))"
  by (rule bit_eqI) (auto simp: bit_simps)

lemma pack_low:
  "take_bit 12 (take_bit 12 v OR push_bit 12 (take_bit 1 i) OR push_bit 13 (take_bit 3 w))
     = take_bit 12 (v::int)"
  using pack_gen_low[of 12 v 1 i 3 w] by simp

lemma pack_i:
  "take_bit 1 (drop_bit 12 (take_bit 12 v OR push_bit 12 (take_bit 1 i) OR push_bit 13 (take_bit 3 w)))
     = take_bit 1 (i::int)"
  using pack_gen_mid[of 1 12 v i 3 w] by simp

lemma pack_w:
  "take_bit 3 (drop_bit 13 (take_bit 12 v OR push_bit 12 (take_bit 1 i) OR push_bit 13 (take_bit 3 w)))
     = take_bit 3 (w::int)"
  using pack_gen_high[of 3 12 1 v i w] by simp

lemma pack_16:
  "take_bit 16 (take_bit 12 v OR push_bit 12 (take_bit 1 i) OR push_bit 13 (take_bit 3 w))
     = (take_bit 12 v OR push_bit 12 (take_bit 1 i) OR push_bit 13 (take_bit 3 (w::int)))"
  using pack_gen_all[of 12 1 3 v i w] by simp

lemma sda_relative_ok:
  assumes "syms n = Some se" "st_value se = Some A" "syms bn = Some be" "st_value be = Some B"
  shows "sda_relative syms n bn msg = Inr (take_bit 16 (A - B))"
  using assms by (simp add: sda_relative_def sym_int_def mask_field_take_bit)

lemma sda_relative_unset:
  assumes "syms bn = Some be" "st_value be = None"
  shows "sda_relative syms n bn msg = Inl (RuntimeError msg)"
  using assms by (simp add: sda_relative_def)

lemma Max_insert_insert:
  "finite S \<Longrightarrow> Max (insert r (insert x S)) = Max (insert (max r (x::int)) S)"
  by (cases "S = {}") (simp_all add: max.assoc)

lemma find_rom_end_loop_Max:
  "find_rom_end_loop r ss = Max (insert r ((\<lambda>s. address s + size_s s) ` set ss))"
proof (induction ss arbitrary: r)
  case Nil
  then show ?case by simp
next
  case (Cons s ss)
  have "(if address s + size_s s > r then address s + size_s s else r) = max r (address s + size_s s)"
    by (simp add: max_def)
  then show ?case
    by (simp add: Cons.IH Max_insert_insert del: Max_insert)
qed

lemma and_align32:
  assumes "0 \<le> y" "y < 2 ^ 32"
  shows "y AND 0xFFFFFFE0 = y - y mod (32::int)"
proof -
  have c: "(0xFFFFFFE0::int) = push_bit 5 (mask 27)"
    by (simp add: mask_eq_exp_minus_1 push_bit_eq_mult)
  have "y AND push_bit 5 (mask 27) = push_bit 5 (take_bit 27 (drop_bit 5 y))"
    by (rule bit_eqI) (auto simp: bit_simps)
  also have "take_bit 27 (drop_bit 5 y) = drop_bit 5 y"
  proof -
    have "drop_bit 5 y < 2 ^ 27" using assms by (simp add: drop_bit_eq_div)
    moreover have "0 \<le> drop_bit 5 y" using assms by (simp add: drop_bit_eq_div)
    ultimately show ?thesis by (simp add: take_bit_int_eq_self)
  qed
  also have "push_bit 5 (drop_bit 5 y) = y - y mod 32"
    by (simp add: push_bit_eq_mult drop_bit_eq_div minus_mod_eq_div_mult)
  finally show ?thesis using c by simp
qed












text \<open>Unfolding the relocation on concrete inputs.\<close>

lemma upt_0_4: "[0..<4] = [0, 1, 2, 3]"
  by code_simp

lemma upt_0_2: "[0..<2] = [0, 1]"
  by code_simp

lemmas reloc_eval = upt_0_4 relocate_codetable.simps relocate_code_def relocate_commands.simps
  relocate_command_def code_status_def SupportedGeckoCodetypes_def seek_def is_mapped_def
  sections_def write_branch_def assemble_branch_def be32_def dol_write_def read_bytes_def

text \<open>With status \<open>OMITTED\<close> the inner loop writes nothing and records placement 0.\<close>

lemma omitted_commands_get_zero_placement:
  "relocate_commands v ''OMITTED'' (d, gb, m) cmds
     = Inr (d, gb, m @ map (\<lambda>c. (0, int (length (value_c c)), ''OMITTED'', c))
                          (filter (\<lambda>c. codetype c = ASM_INSERT \<or> codetype c = ASM_INSERT_XOR) cmds))"
  by (induction cmds arbitrary: m) (auto simp: relocate_command_def)














section \<open>Relocation of the injectable code table\<close>

text \<open>
  C1, at a disabled code entry that holds one inline-assembly command: the status
  of the entry is \<open>DISABLED\<close>, but the inner loop of \<open>build_dol\<close> skips a command
  only when the status is \<open>UNUSED\<close> or \<open>OMITTED\<close>, so the command is relocated
  like an enabled one. A branch is written over the origin 0x80003000 of the
  image, the payload and the branch back are appended to the blob, and the
  metadata records the placement address 0x80004000, not 0.
\<close>

theorem disabled_code_is_relocated:
  "code_status disabled_code = ''DISABLED''
   \<and> relocation_summary 0x80003000
        (relocate_codetable 0x80004000 (example_dol, [], []) [disabled_code])
     = Inr ([0x48, 0x00, 0x10, 0x00],
            [0x38, 0x60, 0x00, 0x01, 0x4B, 0xFF, 0xF0, 0x00],
            [(0x80004000, 8, ''DISABLED'', disabled_code,
              [(0x80004000, 8, ''DISABLED'', asm_command)])])"
  by (simp add: relocation_summary_def reloc_eval disabled_code_def asm_command_def example_dol_def Let_def)




section \<open>Hooks and missing symbols\<close>

text \<open>
  C3, as stated, fails in two ways. A \<open>StringHook\<close> refers to no symbol: with an
  empty symbol table \<open>resolve\<close> still computes its payload (the encoded string
  and a terminating zero byte) and \<open>apply_dol\<close> writes it at the mapped address
  and marks the hook good. And \<open>resolve\<close> sets nothing on a miss: a
  \<open>PointerHook\<close> that was resolved against a table holding \<open>Foo\<close> at 0x80005000
  and is resolved again against an empty table keeps its payload, and
  \<open>apply_dol\<close> writes the bytes 80 00 50 00 into an image that held zeros.
\<close>

theorem hooks_write_without_symbol:
  "resolve example_env Map.empty (hook_string 0x80003000 ''A'' ''ascii'' None)
     = ([], Inr ((hook_string 0x80003000 ''A'' ''ascii'' None)\<lparr>data := PBytes [0x41, 0]\<rparr>))
   \<and> apply_summary 0x80003000 2
         (apply_dol example_dol ((hook_string 0x80003000 ''A'' ''ascii'' None)\<lparr>data := PBytes [0x41, 0]\<rparr>))
     = Inr ([0x41, 0], True)
   \<and> resolve example_env (foo_symbols 0x80005000) (hook_pointer 0x80003000 ''Foo'')
     = ([], Inr ((hook_pointer 0x80003000 ''Foo'')\<lparr>data := PInt 0x80005000\<rparr>))
   \<and> resolve example_env Map.empty ((hook_pointer 0x80003000 ''Foo'')\<lparr>data := PInt 0x80005000\<rparr>)
     = ([], Inr ((hook_pointer 0x80003000 ''Foo'')\<lparr>data := PInt 0x80005000\<rparr>))
   \<and> apply_summary 0x80003000 4
         (apply_dol example_dol ((hook_pointer 0x80003000 ''Foo'')\<lparr>data := PInt 0x80005000\<rparr>))
     = Inr ([0x80, 0x00, 0x50, 0x00], True)
   \<and> read_bytes (mem example_dol) 0x80003000 4 = [0, 0, 0, 0]"
proof -
  have 1: "resolve example_env Map.empty (hook_string 0x80003000 ''A'' ''ascii'' None)
     = ([], Inr ((hook_string 0x80003000 ''A'' ''ascii'' None)\<lparr>data := PBytes [0x41, 0]\<rparr>))"
    by (simp add: resolve_def hook_string_def example_env_def ascii_encode_def pad_to_limit_def)
  have 2: "apply_summary 0x80003000 2
         (apply_dol example_dol ((hook_string 0x80003000 ''A'' ''ascii'' None)\<lparr>data := PBytes [0x41, 0]\<rparr>))
     = Inr ([0x41, 0], True)"
    by (simp add: apply_summary_def apply_dol_def hook_string_def example_dol_def is_mapped_def
          sections_def seek_def dol_write_def read_bytes_def upt_0_2)
  have 3: "resolve example_env (foo_symbols 0x80005000) (hook_pointer 0x80003000 ''Foo'')
     = ([], Inr ((hook_pointer 0x80003000 ''Foo'')\<lparr>data := PInt 0x80005000\<rparr>))"
    by (simp add: resolve_def hook_pointer_def foo_symbols_def)
  have 4: "resolve example_env Map.empty ((hook_pointer 0x80003000 ''Foo'')\<lparr>data := PInt 0x80005000\<rparr>)
     = ([], Inr ((hook_pointer 0x80003000 ''Foo'')\<lparr>data := PInt 0x80005000\<rparr>))"
    by (simp add: resolve_def hook_pointer_def)
  have 5: "apply_summary 0x80003000 4
         (apply_dol example_dol ((hook_pointer 0x80003000 ''Foo'')\<lparr>data := PInt 0x80005000\<rparr>))
     = Inr ([0x80, 0x00, 0x50, 0x00], True)"
    by (simp add: apply_summary_def apply_dol_def hook_pointer_def example_dol_def is_mapped_def
          sections_def seek_def write_uint32_def be32_def dol_write_def read_bytes_def upt_0_4)
  have 6: "read_bytes (mem example_dol) 0x80003000 4 = [0, 0, 0, 0]"
    by (simp add: example_dol_def read_bytes_def upt_0_4)
  from 1 2 3 4 5 6 show ?thesis by (intro conjI)
qed

text \<open>
  C3, amended: for the four variants that refer to a symbol (\<open>Branch\<close>,
  \<open>Pointer\<close>, \<open>Immediate16\<close>, \<open>Immediate12\<close>), \<open>resolve\<close> with a symbol table
  that lacks the hook's name returns the hook exactly as it was, prints nothing and
  raises no exception: the payload is absent afterwards if and only if it was absent
  before. On a hook whose payload is absent, \<open>apply_dol\<close> returns the image and
  the hook as they were: nothing is written and \<open>good\<close> is not set.
\<close>

theorem missing_symbol_leaves_hook:
  assumes "symbol_name (kind h) = Some n" and "syms n = None"
  shows "resolve ev syms h = ([], Inr h)
       \<and> (data h = PNone \<longrightarrow> apply_dol dol h = Inr (dol, h))"
  using assms by (cases "kind h") (auto simp: resolve_def apply_dol_def dom_def)

theorem missing_symbol_leaves_hook_witness:
  "resolve example_env Map.empty (hook_immediate16 0x80003000 ''Foo'' ''@l'')
     = ([], Inr (hook_immediate16 0x80003000 ''Foo'' ''@l''))
   \<and> data (hook_immediate16 0x80003000 ''Foo'' ''@l'') = PNone
   \<and> apply_dol example_dol (hook_immediate16 0x80003000 ''Foo'' ''@l'')
     = Inr (example_dol, hook_immediate16 0x80003000 ''Foo'' ''@l'')"
  using missing_symbol_leaves_hook
          [of "hook_immediate16 0x80003000 ''Foo'' ''@l''" "''Foo''" Map.empty example_env example_dol]
  by (simp add: hook_immediate16_def)

section \<open>Choosing the new section\<close>

text \<open>
  C4, at an image whose text sections already fill the container's limit: the
  test of \<open>build_dol\<close> is \<open>len(dol.textSections) <= MaxTextSections\<close>, so with
  as many text sections as the limit allows the new section is still a text section,
  whatever room the data sections have; the data branch and the "DOL is full" error
  are reached only when the count exceeds the limit. Shown for every image and
  every data limit, with the text limit equal to the number of text sections.
\<close>

theorem new_section_text_when_text_full:
  "new_section (length (textSections dol)) MaxData dol = Inr TextSection"
  by (simp add: new_section_def)

section \<open>Relocation of an inline-assembly command\<close>




section \<open>The 12-bit immediate\<close>

text \<open>
  C6: when \<open>Immediate12Hook.resolve\<close> finds the symbol and returns, the payload
  \<open>d\<close> is a 16-bit value whose bits 0-11 are the value \<open>v\<close> of the modifier chain
  masked to 12 bits, whose bit 12 is \<open>i\<close> masked to 1 bit and whose bits 13-15 are
  \<open>w\<close> masked to 3 bits; reassembling the three decoded fields gives \<open>d\<close> back.
\<close>

theorem immediate12_fields:
  assumes k: "kind h = Immediate12Hook w i n m"
      and r: "resolve ev syms h = (msgs, Inr h')"
      and d: "n \<in> dom syms"
  shows "\<exists>d v. data h' = PInt d \<and> modifier_value syms n m (data h) = (msgs, Inr (PInt v))
           \<and> d AND 0xFFF = mask_field v 12 True
           \<and> drop_bit 12 d AND 1 = mask_field i 1 False
           \<and> drop_bit 13 d AND 7 = mask_field w 3 False
           \<and> 0 \<le> d \<and> d < 2 ^ 16
           \<and> d = (d AND 0xFFF) OR push_bit 12 (drop_bit 12 d AND 1) OR push_bit 13 (drop_bit 13 d AND 7)"
proof -
  obtain v where mv: "modifier_value syms n m (data h) = (msgs, Inr (PInt v))"
    and h': "h' = h\<lparr>data := PInt (take_bit 12 v OR push_bit 12 (take_bit 1 i) OR push_bit 13 (take_bit 3 w))\<rparr>"
    using k r d
    by (auto simp: resolve_def mask_data_def mask_field_take_bit
             split: prod.splits sum.splits pyval.splits)
  let ?d = "take_bit 12 v OR push_bit 12 (take_bit 1 i) OR push_bit 13 (take_bit 3 w)"
  have 0: "data h' = PInt ?d" using h' by simp
  have 1: "?d AND 0xFFF = mask_field v 12 True"
    by (simp only: and_low_masks mask_field_take_bit pack_low)
  have 2: "drop_bit 12 ?d AND 1 = mask_field i 1 False"
    by (simp only: and_low_masks mask_field_take_bit pack_i)
  have 3: "drop_bit 13 ?d AND 7 = mask_field w 3 False"
    by (simp only: and_low_masks mask_field_take_bit pack_w)
  have 4: "0 \<le> ?d" by simp
  have "take_bit 16 ?d = ?d" by (rule pack_16)
  then have 5: "?d < 2 ^ 16" by (metis take_bit_int_less_exp)
  have 6: "?d = (?d AND 0xFFF) OR push_bit 12 (drop_bit 12 ?d AND 1) OR push_bit 13 (drop_bit 13 ?d AND 7)"
    by (simp only: and_low_masks pack_low pack_i pack_w)
  show ?thesis
    by (intro exI[of _ ?d] exI[of _ v] conjI; fact)
qed

theorem immediate12_fields_witness:
  "resolve example_env (foo_symbols 0x80005678) (hook_immediate12 0x80003000 5 1 ''Foo'' ''@l'')
     = ([], Inr ((hook_immediate12 0x80003000 5 1 ''Foo'' ''@l'')\<lparr>data := PInt 0xB678\<rparr>))
   \<and> (\<exists>d v. PInt 0xB678 = PInt d
          \<and> modifier_value (foo_symbols 0x80005678) ''Foo'' ''@l'' PNone = ([], Inr (PInt v))
          \<and> d AND 0xFFF = mask_field v 12 True
          \<and> drop_bit 12 d AND 1 = mask_field 1 1 False
          \<and> drop_bit 13 d AND 7 = mask_field 5 3 False
          \<and> 0 \<le> d \<and> d < 2 ^ 16
          \<and> d = (d AND 0xFFF) OR push_bit 12 (drop_bit 12 d AND 1) OR push_bit 13 (drop_bit 13 d AND 7))"
proof -
  let ?h = "hook_immediate12 0x80003000 5 1 ''Foo'' ''@l''"
  have r: "resolve example_env (foo_symbols 0x80005678) ?h = ([], Inr (?h\<lparr>data := PInt 0xB678\<rparr>))"
    by (simp add: resolve_def hook_immediate12_def foo_symbols_def modifier_value_def sym_int_def
          lo_def mask_data_def mask_field_def)
  have k: "kind ?h = Immediate12Hook 5 1 ''Foo'' ''@l''" by (simp add: hook_immediate12_def)
  have d: "''Foo'' \<in> dom (foo_symbols 0x80005678)" by (simp add: foo_symbols_def)
  show ?thesis
    using r immediate12_fields[OF k r d] by (simp add: hook_immediate12_def)
qed

section \<open>Small-data-area offsets\<close>

text \<open>
  C7, as stated, for the 12-bit hook: with the symbol at 0x80006000 and the base at
  0x80005000 the offset is 0x1000, yet \<open>Immediate12Hook.resolve\<close> with \<open>@sda\<close>
  and \<open>i = w = 0\<close> yields the halfword 0: only the low 12 bits of the offset
  are kept. The resolved 16-bit field of an \<open>Immediate12Hook\<close> is not the offset
  as a signed 16-bit quantity.
\<close>

theorem immediate12_sda_keeps_12_bits:
  "resolve example_env sda_symbols (hook_immediate12 0x80003000 0 0 ''Foo'' ''@sda'')
     = ([], Inr ((hook_immediate12 0x80003000 0 0 ''Foo'' ''@sda'')\<lparr>data := PInt 0\<rparr>))
   \<and> (0x80006000 - 0x80005000 :: int) = 0x1000"
  by (simp add: resolve_def hook_immediate12_def sda_symbols_def modifier_value_def sda_relative_def
        sym_int_def mask_data_def mask_field_def)

text \<open>
  C7, amended: let the symbol be at \<open>A\<close> and the modifier be \<open>@sda\<close> (base
  \<open>_SDA_BASE_\<close>) or \<open>@sda2\<close> (base \<open>_SDA2_BASE_\<close>). If the base is set to \<open>B\<close>,
  an \<open>Immediate16Hook\<close> resolves to the 16-bit two's-complement encoding of
  \<open>A - B\<close>, and an \<open>Immediate12Hook\<close> to the low 12 bits of \<open>A - B\<close> packed
  with \<open>i\<close> in bit 12 and \<open>w\<close> in bits 13-15. If the base was never set, both
  raise \<open>RuntimeError\<close>.
\<close>

theorem sda_hooks_resolve:
  assumes n: "syms n = Some se" "st_value se = Some A"
      and b: "syms bn = Some be"
      and m: "m = ''@sda'' \<and> bn = ''_SDA_BASE_'' \<or> m = ''@sda2'' \<and> bn = ''_SDA2_BASE_''"
      and k16: "kind h16 = Immediate16Hook n m"
      and k12: "kind h12 = Immediate12Hook w i n m"
  shows "(st_value be = Some B \<longrightarrow>
            resolve ev syms h16 = ([], Inr (h16\<lparr>data := PInt ((A - B) mod 2 ^ 16)\<rparr>))
          \<and> signed_take_bit 15 ((A - B) mod 2 ^ 16) = signed_take_bit 15 (A - B)
          \<and> resolve ev syms h12 =
              ([], Inr (h12\<lparr>data := PInt ((A - B) mod 2 ^ 12 OR push_bit 12 (i mod 2)
                                            OR push_bit 13 (w mod 2 ^ 3))\<rparr>)))
       \<and> (st_value be = None \<longrightarrow>
            (\<exists>msg. resolve ev syms h16 = ([], Inl (RuntimeError msg)))
          \<and> (\<exists>msg. resolve ev syms h12 = ([], Inl (RuntimeError msg))))"
proof (intro conjI impI)
  obtain msg where mv:
    "\<And>old. modifier_value syms n m old = ([], map_sum id PInt (sda_relative syms n bn msg))"
    using m by (auto simp: modifier_value_def)
  have dom: "n \<in> dom syms" using n by auto
  {
    assume B: "st_value be = Some B"
    have s: "sda_relative syms n bn msg = Inr (take_bit 16 (A - B))"
      using n b B by (rule sda_relative_ok)
    show "resolve ev syms h16 = ([], Inr (h16\<lparr>data := PInt ((A - B) mod 2 ^ 16)\<rparr>))"
      using k16 dom by (simp add: resolve_def mv s mask_data_def mask_field_take_bit take_bit_eq_mod)
    show "signed_take_bit 15 ((A - B) mod 2 ^ 16) = signed_take_bit 15 (A - B)"
      using signed_take_bit_take_bit[of 15 16 "A - B"] by (simp add: take_bit_eq_mod)
    have "take_bit 12 (take_bit 16 (A - B)) = take_bit 12 (A - B)" by simp
    then show "resolve ev syms h12 =
              ([], Inr (h12\<lparr>data := PInt ((A - B) mod 2 ^ 12 OR push_bit 12 (i mod 2)
                                            OR push_bit 13 (w mod 2 ^ 3))\<rparr>))"
      using k12 dom by (simp add: resolve_def mv s mask_data_def mask_field_take_bit take_bit_eq_mod)
  }
  {
    assume N: "st_value be = None"
    have s: "sda_relative syms n bn msg = Inl (RuntimeError msg)"
      using b N by (rule sda_relative_unset)
    show "\<exists>msg. resolve ev syms h16 = ([], Inl (RuntimeError msg))"
      using k16 dom by (simp add: resolve_def mv s)
    show "\<exists>msg. resolve ev syms h12 = ([], Inl (RuntimeError msg))"
      using k12 dom by (simp add: resolve_def mv s)
  }
qed

theorem sda_hooks_resolve_witness:
  "resolve example_env sda_symbols (hook_immediate16 0x80003000 ''Foo'' ''@sda'')
     = ([], Inr ((hook_immediate16 0x80003000 ''Foo'' ''@sda'')\<lparr>data := PInt 0x1000\<rparr>))
   \<and> (\<exists>msg. resolve example_env sda_symbols (hook_immediate16 0x80003000 ''Foo'' ''@sda2'')
              = ([], Inl (RuntimeError msg)))"
proof -
  have 1: "sda_symbols ''Foo'' = Some \<lparr>st_value = Some 0x80006000, st_size = 4\<rparr>"
    by (simp add: sda_symbols_def)
  have 2: "sda_symbols ''_SDA_BASE_'' = Some \<lparr>st_value = Some 0x80005000, st_size = 0\<rparr>"
    by (simp add: sda_symbols_def)
  have 3: "sda_symbols ''_SDA2_BASE_'' = Some \<lparr>st_value = None, st_size = 0\<rparr>"
    by (simp add: sda_symbols_def)
  have a: "resolve example_env sda_symbols (hook_immediate16 0x80003000 ''Foo'' ''@sda'')
     = ([], Inr ((hook_immediate16 0x80003000 ''Foo'' ''@sda'')\<lparr>data := PInt 0x1000\<rparr>))"
    using sda_hooks_resolve[OF 1 _ 2, of "0x80006000" "''@sda''"
            "hook_immediate16 0x80003000 ''Foo'' ''@sda''"
            "hook_immediate12 0x80003000 0 0 ''Foo'' ''@sda''" 0 0 "0x80005000" example_env]
    by (simp add: hook_immediate16_def hook_immediate12_def)
  have b: "\<exists>msg. resolve example_env sda_symbols (hook_immediate16 0x80003000 ''Foo'' ''@sda2'')
                  = ([], Inl (RuntimeError msg))"
    using sda_hooks_resolve[OF 1 _ 3, of "0x80006000" "''@sda2''"
            "hook_immediate16 0x80003000 ''Foo'' ''@sda2''"
            "hook_immediate12 0x80003000 0 0 ''Foo'' ''@sda2''" 0 0 "0" example_env]
    by (simp add: hook_immediate16_def hook_immediate12_def)
  show ?thesis using a b by simp
qed

section \<open>Unknown modifiers\<close>

text \<open>
  C8, at a new hook whose symbol is in the table and whose modifier is \<open>@x\<close>:
  \<open>resolve\<close> prints the unknown modifier and then still runs the masking line
  that follows the chain, on a payload that is \<open>None\<close>; the \<open>TypeError\<close>
  escapes \<open>resolve\<close>, for the 16-bit and for the 12-bit hook, and ends the loop
  over the hooks of \<open>build_dol\<close>.
\<close>

theorem unknown_modifier_raises:
  "resolve ev (foo_symbols 0x80005000) (hook_immediate16 0x80003000 ''Foo'' ''@x'')
     = ([UnknownModifier ''@x''], Inl TypeError)
   \<and> resolve ev (foo_symbols 0x80005000) (hook_immediate12 0x80003000 0 0 ''Foo'' ''@x'')
     = ([UnknownModifier ''@x''], Inl TypeError)
   \<and> apply_hooks ev (foo_symbols 0x80005000) dol
         [hook_immediate16 0x80003000 ''Foo'' ''@x'', hook_pointer 0x80003004 ''Foo'']
     = ([UnknownModifier ''@x''], Inl TypeError)"
  by (simp add: resolve_def hook_immediate16_def hook_immediate12_def foo_symbols_def
        modifier_value_def mask_data_def)

section \<open>The automatic base address\<close>

text \<open>
  C9, as stated, for an image whose only section is [0x1000, 0x2000): the end of
  its highest section is 0x2000, which is 32-byte aligned, yet the base address
  computed is 0x80000000, because \<open>find_rom_end\<close> starts from 0x80000000 and
  only moves up.
\<close>

theorem auto_base_not_below_0x80000000:
  "set_base_addr None low_dol = (0x80000000, [BaseAutoSet 0x80000000])
   \<and> sections low_dol = [\<lparr>address = 0x1000, size_s = 0x1000\<rparr>]
   \<and> (0x1000 + 0x1000 :: int) = 0x2000 \<and> (0x2000 :: int) mod 32 = 0"
  by (simp add: set_base_addr_def find_rom_end_def low_dol_def sections_def alignment_warning_def)

text \<open>
  C9, amended: when no base address is configured, the base address becomes the
  smallest multiple of 32 at or above \<open>find_rom_end\<close>, which is the greatest of
  0x80000000 and the ends of the image's sections, provided that it lies below
  \<open>2 ^ 32\<close>; only the line announcing the base address is printed, with no
  alignment warning.
\<close>

theorem auto_base_addr_aligned_above_rom_end:
  assumes "find_rom_end dol + 31 < 2 ^ 32"
  shows "\<exists>b. set_base_addr None dol = (b, [BaseAutoSet b])
     \<and> b mod 32 = 0 \<and> find_rom_end dol \<le> b
     \<and> (\<forall>c. c mod 32 = 0 \<and> find_rom_end dol \<le> c \<longrightarrow> b \<le> c)
     \<and> find_rom_end dol
         = Max (insert 0x80000000 ((\<lambda>s. address s + size_s s) ` set (sections dol)))"
proof -
  let ?e = "find_rom_end dol"
  let ?b = "(?e + 31) AND 0xFFFFFFE0"
  have e: "?e = Max (insert 0x80000000 ((\<lambda>s. address s + size_s s) ` set (sections dol)))"
    by (simp add: find_rom_end_def find_rom_end_loop_Max)
  have "0x80000000 \<le> ?e" unfolding e by (rule Max_ge) auto
  then have nn: "0 \<le> ?e + 31" by simp
  have b: "?b = (?e + 31) - (?e + 31) mod 32"
    using and_align32[OF nn assms] .
  have al: "?b mod 32 = 0" unfolding b by presburger
  have ge: "?e \<le> ?b" unfolding b by presburger
  have least: "\<forall>c. c mod 32 = 0 \<and> ?e \<le> c \<longrightarrow> ?b \<le> c" unfolding b by presburger
  have sb: "set_base_addr None dol = (?b, [BaseAutoSet ?b])"
    using al by (simp add: set_base_addr_def alignment_warning_def Let_def)
  show ?thesis
    by (intro exI[of _ ?b] conjI; fact)
qed

theorem auto_base_addr_aligned_above_rom_end_witness:
  "find_rom_end example_dol = 0x80004000
   \<and> set_base_addr None example_dol = (0x80004000, [BaseAutoSet 0x80004000])
   \<and> (\<exists>b. set_base_addr None example_dol = (b, [BaseAutoSet b]) \<and> b mod 32 = 0
          \<and> find_rom_end example_dol \<le> b)"
proof -
  have r: "find_rom_end example_dol = 0x80004000"
    by (simp add: find_rom_end_def example_dol_def sections_def)
  have s: "set_base_addr None example_dol = (0x80004000, [BaseAutoSet 0x80004000])"
    by (simp add: set_base_addr_def r alignment_warning_def)
  have h: "find_rom_end example_dol + 31 < 2 ^ 32" by (simp add: r)
  have "\<exists>b. set_base_addr None example_dol = (b, [BaseAutoSet b]) \<and> b mod 32 = 0
          \<and> find_rom_end example_dol \<le> b"
    using auto_base_addr_aligned_above_rom_end[OF h]
    by (elim exE conjE) (intro exI conjI, assumption+)
  with r s show ?thesis by (intro conjI)
qed

section \<open>A payload equal to zero\<close>

text \<open>
  C10: a \<open>Branch\<close>, \<open>Pointer\<close>, \<open>Immediate16\<close> or \<open>Immediate12\<close> hook whose
  payload is the integer 0 is treated by \<open>apply_dol\<close> and by
  \<open>write_geckocommand\<close> exactly as one whose payload is \<open>None\<close>: the image and
  the script stay as they were and \<open>good\<close> is not set.
\<close>

theorem zero_payload_is_not_applied:
  assumes "symbol_name (kind h) = Some n" and "data h = PInt 0"
  shows "apply_dol dol h = Inr (dol, h) \<and> write_geckocommand f h = (f, h)
       \<and> apply_dol dol (h\<lparr>data := PNone\<rparr>) = Inr (dol, h\<lparr>data := PNone\<rparr>)
       \<and> write_geckocommand f (h\<lparr>data := PNone\<rparr>) = (f, h\<lparr>data := PNone\<rparr>)"
  using assms by (cases "kind h") (auto simp: apply_dol_def write_geckocommand_def)

text \<open>A pointer hook to a symbol whose value is 0, at a mapped address.\<close>

theorem zero_payload_is_not_applied_witness:
  "resolve example_env (foo_symbols 0) (hook_pointer 0x80003000 ''Foo'')
     = ([], Inr ((hook_pointer 0x80003000 ''Foo'')\<lparr>data := PInt 0\<rparr>))
   \<and> is_mapped example_dol 0x80003000
   \<and> apply_dol example_dol ((hook_pointer 0x80003000 ''Foo'')\<lparr>data := PInt 0\<rparr>)
     = Inr (example_dol, (hook_pointer 0x80003000 ''Foo'')\<lparr>data := PInt 0\<rparr>)
   \<and> write_geckocommand [] ((hook_pointer 0x80003000 ''Foo'')\<lparr>data := PInt 0\<rparr>)
     = ([], (hook_pointer 0x80003000 ''Foo'')\<lparr>data := PInt 0\<rparr>)"
proof -
  have r: "resolve example_env (foo_symbols 0) (hook_pointer 0x80003000 ''Foo'')
     = ([], Inr ((hook_pointer 0x80003000 ''Foo'')\<lparr>data := PInt 0\<rparr>))"
    by (simp add: resolve_def hook_pointer_def foo_symbols_def)
  have m: "is_mapped example_dol 0x80003000"
    by (simp add: is_mapped_def example_dol_def sections_def)
  show ?thesis
    using r m zero_payload_is_not_applied
                [of "(hook_pointer 0x80003000 ''Foo'')\<lparr>data := PInt 0\<rparr>" "''Foo''" example_dol "[]"]
    by (simp add: hook_pointer_def)
qed

end
